theory Spec2Isabelle
  imports Main
begin

section \<open>Instance lifecycle of the GCE backend (appengine/gce-backend/instances.py)\<close>

text \<open>
  A shallow embedding of \<^verbatim>\<open>instances.py\<close>. The datastore, the event sink, the log and
  the record of calls made to the Compute Control API are one explicit state that every
  operation takes and returns. A function decorated \<^verbatim>\<open>@ndb.transactional\<close> is one
  state transformer: the model is sequential, so its body runs atomically.
  Everything outside the file (the clock, the Compute Control API, the naming helpers
  of other modules) is a field of an environment record.
\<close>

subsection \<open>Keys\<close>

text \<open>
  An \<^verbatim>\<open>ndb.Key\<close> is a kind, an id and an optional parent. The four kinds of the
  module each get a type, so that \<^verbatim>\<open>key.parent()\<close> is a selector:
  InstanceTemplate is a root, InstanceTemplateRevision has it as parent,
  InstanceGroupManager has the revision as parent, and an Instance key is a root
  whose id is the composite string built by \<^verbatim>\<open>get_instance_key\<close>.
\<close>

datatype template_key = TemplateKey (template_id: string)

datatype revision_key = RevisionKey (revision_parent: template_key) (revision_id: string)

datatype manager_key = ManagerKey (manager_parent: revision_key) (manager_id: string)

datatype instance_key = InstanceKey (instance_id: string)

definition get_instance_key :: "string \<Rightarrow> string \<Rightarrow> string \<Rightarrow> string \<Rightarrow> instance_key" where
  "get_instance_key base_name revision zone instance_name =
     InstanceKey (base_name @ '' '' @ revision @ '' '' @ zone @ '' '' @ instance_name)"

subsection \<open>Entities\<close>

text \<open>
  The fields are those the module reads or writes. A property that was never assigned is
  \<open>None\<close>; a boolean property is tested for truth only, so \<open>False\<close> stands for both an
  unset and a false flag. Field names carry a prefix for the entity
  (\<open>i_\<close>, \<open>m_\<close>, \<open>r_\<close>, \<open>t_\<close>).
\<close>

type_synonym datetime = int

record MetadataUpdate =
  metadata :: "(string \<times> string) list"

record Instance =
  i_key :: instance_key
  i_cataloged :: bool
  i_deletion_ts :: "datetime option"
  i_hostname :: "string option"
  i_instance_group_manager :: manager_key
  i_lease_expiration_ts :: "datetime option"
  i_pending_deletion :: bool
  i_pending_metadata_updates :: "MetadataUpdate list"
  i_pubsub_service_account :: "string option"
  i_pubsub_subscription :: "string option"
  i_url :: "string option"

record InstanceGroupManager =
  m_key :: manager_key
  m_instances :: "instance_key list"
  m_url :: "string option"

record InstanceTemplateRevision =
  r_key :: revision_key
  r_drained :: "manager_key list"
  r_project :: "string option"

record InstanceTemplate =
  t_key :: template_key
  t_drained :: "revision_key list"

text \<open>Python truth of a string property: neither \<^verbatim>\<open>None\<close> nor the empty string.\<close>

definition truthy :: "string option \<Rightarrow> bool" where
  "truthy v = (case v of None \<Rightarrow> False | Some str \<Rightarrow> str \<noteq> [])"

text \<open>
  The constructor call \<^verbatim>\<open>models.Instance(key=..., instance_group_manager=..., url=...)\<close>
  of \<^verbatim>\<open>_ensure_entity_exists\<close>: every other property is left unset.
\<close>

definition new_Instance :: "instance_key \<Rightarrow> manager_key \<Rightarrow> string \<Rightarrow> Instance" where
  "new_Instance k instance_group_manager u =
     \<lparr>i_key = k, i_cataloged = False, i_deletion_ts = None, i_hostname = None,
      i_instance_group_manager = instance_group_manager,
      i_lease_expiration_ts = None, i_pending_deletion = False,
      i_pending_metadata_updates = [], i_pubsub_service_account = None,
      i_pubsub_subscription = None, i_url = Some u\<rparr>"

subsection \<open>Errors and the Compute Control API\<close>

datatype error =
    KeyError string
  | AttributeError string
  | NetError (status_code: "int option")

text \<open>A page of \<^verbatim>\<open>get_instances_in_instance_group\<close>: both entries may be absent.\<close>

record item =
  item_instance :: string

record page =
  items :: "item list option"
  nextPageToken :: "string option"

record list_request =
  list_project :: "string option"
  list_manager :: string
  list_zone :: string
  max_results :: nat
  page_token :: "string option"

record delete_result =
  status :: "string option"

record delete_request =
  delete_project :: "string option"
  delete_manager :: string
  delete_zone :: string
  delete_urls :: "string option list"

text \<open>
  What the module takes from elsewhere: \<^verbatim>\<open>utils.utcnow\<close>, the two calls of
  \<^verbatim>\<open>gce.Project\<close> (either of which may raise), \<^verbatim>\<open>instance_group_managers.get_name\<close>,
  \<^verbatim>\<open>gce.extract_instance_name\<close> and \<^verbatim>\<open>pubsub.full_subscription_name\<close>.
\<close>

record env =
  utcnow :: datetime
  get_instances_in_instance_group :: "list_request \<Rightarrow> error + page"
  delete_instances :: "delete_request \<Rightarrow> error + delete_result"
  get_name :: "InstanceGroupManager \<Rightarrow> string"
  extract_instance_name :: "string \<Rightarrow> string"
  full_subscription_name :: "string \<Rightarrow> string \<Rightarrow> string"

subsection \<open>State\<close>

datatype level = INFO | WARNING

text \<open>
  \<open>puts\<close> counts the datastore writes, \<open>events\<close> is what \<^verbatim>\<open>metrics.send_machine_event\<close>
  was called with, \<open>rpcs\<close> and \<open>list_calls\<close> are the delete and list requests sent to
  the Compute Control API, \<open>logs\<close> holds the level and the format string of each
  \<^verbatim>\<open>logging\<close> call (its arguments are not rendered).
\<close>

record state =
  instances :: "instance_key \<rightharpoonup> Instance"
  managers :: "manager_key \<rightharpoonup> InstanceGroupManager"
  revisions :: "revision_key \<rightharpoonup> InstanceTemplateRevision"
  templates :: "template_key \<rightharpoonup> InstanceTemplate"
  puts :: nat
  events :: "(string \<times> string option) list"
  rpcs :: "delete_request list"
  list_calls :: "list_request list"
  logs :: "(level \<times> string) list"

text \<open>\<^verbatim>\<open>key.get()\<close>: the entity stored under the key, which carries that key.\<close>

definition get_Instance :: "state \<Rightarrow> instance_key \<Rightarrow> Instance option" where
  "get_Instance s k = map_option (\<lambda>e. e\<lparr>i_key := k\<rparr>) (instances s k)"

definition get_InstanceGroupManager :: "state \<Rightarrow> manager_key \<Rightarrow> InstanceGroupManager option" where
  "get_InstanceGroupManager s k = map_option (\<lambda>e. e\<lparr>m_key := k\<rparr>) (managers s k)"

definition get_InstanceTemplateRevision :: "state \<Rightarrow> revision_key \<Rightarrow> InstanceTemplateRevision option" where
  "get_InstanceTemplateRevision s k = map_option (\<lambda>e. e\<lparr>r_key := k\<rparr>) (revisions s k)"

definition get_InstanceTemplate :: "state \<Rightarrow> template_key \<Rightarrow> InstanceTemplate option" where
  "get_InstanceTemplate s k = map_option (\<lambda>e. e\<lparr>t_key := k\<rparr>) (templates s k)"

text \<open>\<^verbatim>\<open>entity.put()\<close>: one write, under the entity's own key.\<close>

definition put_Instance :: "Instance \<Rightarrow> state \<Rightarrow> state" where
  "put_Instance e s = s\<lparr>instances := (instances s)(i_key e \<mapsto> e), puts := Suc (puts s)\<rparr>"

definition put_InstanceGroupManager :: "InstanceGroupManager \<Rightarrow> state \<Rightarrow> state" where
  "put_InstanceGroupManager e s = s\<lparr>managers := (managers s)(m_key e \<mapsto> e), puts := Suc (puts s)\<rparr>"

definition log_info :: "string \<Rightarrow> state \<Rightarrow> state" where
  "log_info msg s = s\<lparr>logs := logs s @ [(INFO, msg)]\<rparr>"

definition log_warning :: "string \<Rightarrow> state \<Rightarrow> state" where
  "log_warning msg s = s\<lparr>logs := logs s @ [(WARNING, msg)]\<rparr>"

definition send_machine_event :: "string \<Rightarrow> string option \<Rightarrow> state \<Rightarrow> state" where
  "send_machine_event kind hostname s = s\<lparr>events := events s @ [(kind, hostname)]\<rparr>"

subsection \<open>Marking, subscription metadata, lease\<close>

definition mark_for_deletion :: "instance_key \<Rightarrow> state \<Rightarrow> state" where
  "mark_for_deletion key s =
     (case get_Instance s key of
        None \<Rightarrow> log_warning ''Instance does not exist: %s'' s
      | Some inst \<Rightarrow>
          if \<not> i_pending_deletion inst then
            send_machine_event ''DELETION_PROPOSED'' (i_hostname inst)
              (put_Instance (inst\<lparr>i_lease_expiration_ts := None, i_pending_deletion := True\<rparr>)
                 (log_info ''Marking Instance for deletion: %s'' s))
          else s)"

definition add_subscription_metadata ::
  "env \<Rightarrow> instance_key \<Rightarrow> string \<Rightarrow> string \<Rightarrow> string \<Rightarrow> state \<Rightarrow> state" where
  "add_subscription_metadata env key subscription_project subscription service_account s =
     (case get_Instance s key of
        None \<Rightarrow> log_warning ''Instance does not exist: %s'' s
      | Some inst \<Rightarrow>
          if truthy (i_pubsub_subscription inst) then s
          else
            put_Instance
              (inst\<lparr>i_pending_metadata_updates :=
                      i_pending_metadata_updates inst @
                        [\<lparr>metadata =
                            [(''pubsub_service_account'', service_account),
                             (''pubsub_subscription'', subscription),
                             (''pubsub_subscription_project'', subscription_project)]\<rparr>],
                    i_pubsub_service_account := Some service_account,
                    i_pubsub_subscription :=
                      Some (full_subscription_name env subscription_project subscription)\<rparr>)
              (log_info ''Instance Pub/Sub subscription received: %s'' s))"

definition add_lease_expiration_ts :: "instance_key \<Rightarrow> datetime option \<Rightarrow> state \<Rightarrow> state" where
  "add_lease_expiration_ts key lease_expiration_ts s =
     (case get_Instance s key of
        None \<Rightarrow> log_warning ''Instance does not exist: %s'' s
      | Some inst \<Rightarrow>
          if i_lease_expiration_ts inst = lease_expiration_ts then s
          else
            put_Instance (inst\<lparr>i_lease_expiration_ts := lease_expiration_ts\<rparr>)
              (log_info ''Updating lease_expiration_ts (%s -> %s)'' s))"

subsection \<open>Discovery: fetch\<close>

text \<open>
  The local variable \<^verbatim>\<open>instance\<close> of \<^verbatim>\<open>fetch\<close> holds the manager read from the store.
  The list comprehension inside the loop,
  \<^verbatim>\<open>[instance['instance'] for instance in result['items']]\<close>, runs over the same name. The
  module is Python 2 (it is written against \<^verbatim>\<open>ndb\<close>), where the variable of a list
  comprehension is a variable of the enclosing function: after a page with items the
  name is bound to the last item of that page, a dict. The comprehension for the first
  page runs over \<^verbatim>\<open>i\<close> and leaves the name alone.
\<close>

datatype local_instance = Manager InstanceGroupManager | Item item

text \<open>The request for a page: 500 results, and the token of the page before, if any.\<close>

definition list_request_of ::
  "env \<Rightarrow> string option \<Rightarrow> InstanceGroupManager \<Rightarrow> string option \<Rightarrow> list_request" where
  "list_request_of env project mgr token =
     \<lparr>list_project = project,
      list_manager = get_name env mgr,
      list_zone = manager_id (m_key mgr),
      max_results = 500,
      page_token = token\<rparr>"

text \<open>
  The \<^verbatim>\<open>while\<close> loop of \<^verbatim>\<open>fetch\<close>, entered with the value of \<^verbatim>\<open>instance\<close>, the page just
  read and the URLs gathered so far. It runs for as long as the API hands out
  continuation tokens, so it is a partial function: \<open>None\<close> is a loop that never ends.
  The arguments of the call are evaluated first: with an item in \<^verbatim>\<open>instance\<close>,
  \<^verbatim>\<open>instance.key\<close> raises \<^verbatim>\<open>AttributeError\<close> and no request is sent
  (\<^verbatim>\<open>get_name\<close>, applied to the dict just before, reads \<^verbatim>\<open>.key\<close> of its argument too).
  The page is read with \<^verbatim>\<open>result['items']\<close>, which raises \<^verbatim>\<open>KeyError\<close> on a page without
  that entry.
\<close>

partial_function (option) fetch_pages ::
  "env \<Rightarrow> string option \<Rightarrow> local_instance \<Rightarrow> page \<Rightarrow> string list \<Rightarrow> state \<Rightarrow>
     ((error + string list) \<times> state) option" where
  "fetch_pages env project inst result instance_urls s =
     (if truthy (nextPageToken result) then
        (case inst of
           Item it \<Rightarrow> Some (Inl (AttributeError ''key''), s)
         | Manager mgr \<Rightarrow>
             (case get_instances_in_instance_group env
                     (list_request_of env project mgr (nextPageToken result)) of
                Inl e \<Rightarrow>
                  Some (Inl e,
                        s\<lparr>list_calls := list_calls s @
                             [list_request_of env project mgr (nextPageToken result)]\<rparr>)
              | Inr result' \<Rightarrow>
                  (case items result' of
                     None \<Rightarrow>
                       Some (Inl (KeyError ''items''),
                             s\<lparr>list_calls := list_calls s @
                                  [list_request_of env project mgr (nextPageToken result)]\<rparr>)
                   | Some its \<Rightarrow>
                       fetch_pages env project
                         (if its = [] then Manager mgr else Item (last its))
                         result' (instance_urls @ map item_instance its)
                         (s\<lparr>list_calls := list_calls s @
                              [list_request_of env project mgr (nextPageToken result)]\<rparr>))))
      else Some (Inr instance_urls, s))"

text \<open>
  The first request has no page token; the first page is read with
  \<^verbatim>\<open>result.get('items', [])\<close>, so a first page without items counts as empty.
\<close>

definition fetch :: "env \<Rightarrow> manager_key \<Rightarrow> state \<Rightarrow> ((error + string list) \<times> state) option" where
  "fetch env key s =
     (case get_InstanceGroupManager s key of
        None \<Rightarrow> Some (Inr [], log_warning ''InstanceGroupManager does not exist: %s'' s)
      | Some mgr \<Rightarrow>
          if \<not> truthy (m_url mgr) then
            Some (Inr [], log_warning ''InstanceGroupManager URL unspecified: %s'' s)
          else
            (case get_InstanceTemplateRevision s (manager_parent key) of
               None \<Rightarrow> Some (Inr [], log_warning ''InstanceTemplateRevision does not exist: %s'' s)
             | Some instance_template_revision \<Rightarrow>
                 if \<not> truthy (r_project instance_template_revision) then
                   Some (Inr [], log_warning ''InstanceTemplateRevision project unspecified: %s'' s)
                 else
                   (let req = list_request_of env (r_project instance_template_revision) mgr None;
                        s1 = s\<lparr>list_calls := list_calls s @ [req]\<rparr>
                    in case get_instances_in_instance_group env req of
                         Inl e \<Rightarrow> Some (Inl e, s1)
                       | Inr result \<Rightarrow>
                           fetch_pages env (r_project instance_template_revision) (Manager mgr) result
                             (map item_instance (case items result of None \<Rightarrow> [] | Some its \<Rightarrow> its))
                             s1)))"

subsection \<open>Discovery: creating the entities\<close>

text \<open>
  \<^verbatim>\<open>_ensure_entity_exists\<close> (the leading underscore is not an Isabelle name): the
  transactional re-check and creation; the boolean says whether an entity was written.
\<close>

definition priv_ensure_entity_exists ::
  "instance_key \<Rightarrow> string \<Rightarrow> manager_key \<Rightarrow> state \<Rightarrow> bool \<times> state" where
  "priv_ensure_entity_exists key u instance_group_manager s =
     (case get_Instance s key of
        Some inst \<Rightarrow> (False, log_info ''Instance entity already exists: %s'' s)
      | None \<Rightarrow>
          (True, put_Instance (new_Instance key instance_group_manager u)
                   (log_info ''Creating Instance entity: %s'' s)))"

definition ensure_entity_exists ::
  "env \<Rightarrow> instance_key \<Rightarrow> string \<Rightarrow> manager_key \<Rightarrow> state \<Rightarrow> state" where
  "ensure_entity_exists env key u instance_group_manager s =
     (case get_Instance s key of
        Some inst \<Rightarrow> s
      | None \<Rightarrow>
          (case priv_ensure_entity_exists key u instance_group_manager s of
             (put, s1) \<Rightarrow>
               if put then send_machine_event ''CREATED'' (Some (extract_instance_name env u)) s1
               else s1))"

text \<open>
  Modelled from the spec: \<^verbatim>\<open>instance_group_managers.set_instances\<close> is not part of the
  sources at hand. The spec says that the manager's \<open>instances\<close> list is overwritten with
  the derived keys, and cleared when the URL list is empty. A missing manager has
  nothing to overwrite.
\<close>

definition set_instances :: "manager_key \<Rightarrow> instance_key list \<Rightarrow> state \<Rightarrow> state" where
  "set_instances key keys s =
     (case get_InstanceGroupManager s key of
        None \<Rightarrow> s
      | Some mgr \<Rightarrow> put_InstanceGroupManager (mgr\<lparr>m_instances := keys\<rparr>) s)"

text \<open>
  Modelled from the spec: \<^verbatim>\<open>utilities.batch_process_async\<close> is not part of the sources at
  hand. The spec says that the creations run concurrently, at most \<open>max_concurrent\<close> at a
  time, each one transactional on its own key; the model runs them one after the other,
  in the order of the list.
\<close>

definition batch_process_async :: "'a list \<Rightarrow> ('a \<Rightarrow> state \<Rightarrow> state) \<Rightarrow> state \<Rightarrow> state" where
  "batch_process_async xs f s = fold f xs s"

text \<open>
  The dict comprehension \<^verbatim>\<open>{url: get_instance_key(...) for url in urls}\<close> as an
  association list: a URL met again keeps its place and takes the new value.
  \<^verbatim>\<open>keys.values()\<close> lists the values in the order of the association list; Python 2
  promises no particular order there. The lookup \<^verbatim>\<open>keys[url]\<close> of the callback is made
  for the URLs of the list only, which the dict binds; the branch of the model for a
  failed lookup is never taken and leaves the state alone.
\<close>

fun dict_set :: "('k \<times> 'v) list \<Rightarrow> 'k \<Rightarrow> 'v \<Rightarrow> ('k \<times> 'v) list" where
  "dict_set [] k v = [(k, v)]"
| "dict_set ((k', v') # d) k v = (if k' = k then (k, v) # d else (k', v') # dict_set d k v)"

definition dict_comprehension :: "('k \<Rightarrow> 'v) \<Rightarrow> 'k list \<Rightarrow> ('k \<times> 'v) list" where
  "dict_comprehension f xs = fold (\<lambda>x d. dict_set d x (f x)) xs []"

definition dict_get :: "('k \<times> 'v) list \<Rightarrow> 'k \<Rightarrow> error + 'v" where
  "dict_get d k = (case map_of d k of None \<Rightarrow> Inl (KeyError ''key'') | Some v \<Rightarrow> Inr v)"

definition dict_values :: "('k \<times> 'v) list \<Rightarrow> 'v list" where
  "dict_values d = map snd d"

definition ensure_entities_exist :: "env \<Rightarrow> manager_key \<Rightarrow> state \<Rightarrow> (error option \<times> state) option" where
  "ensure_entities_exist env key s =
     (case fetch env key s of
        None \<Rightarrow> None
      | Some (Inl e, s1) \<Rightarrow> Some (Some e, s1)
      | Some (Inr urls, s1) \<Rightarrow>
          if urls = [] then Some (None, set_instances key [] s1)
          else
            (let base_name = template_id (revision_parent (manager_parent key));
                 revision = revision_id (manager_parent key);
                 zone = manager_id key;
                 keys = dict_comprehension
                          (\<lambda>u. get_instance_key base_name revision zone (extract_instance_name env u))
                          urls;
                 s2 = batch_process_async urls
                        (\<lambda>u st. case dict_get keys u of
                                   Inl e \<Rightarrow> st
                                 | Inr k \<Rightarrow> ensure_entity_exists env k u key st)
                        s1
             in Some (None, set_instances key (dict_values keys) s2)))"

subsection \<open>Deletion\<close>

definition set_deletion_time :: "instance_key \<Rightarrow> datetime \<Rightarrow> state \<Rightarrow> state" where
  "set_deletion_time key ts s =
     (case get_Instance s key of
        None \<Rightarrow> s
      | Some inst \<Rightarrow>
          if i_deletion_ts inst \<noteq> None then s
          else put_Instance (inst\<lparr>i_deletion_ts := Some ts\<rparr>) s)"

text \<open>The request that \<^verbatim>\<open>_delete\<close> sends: the instance's URL within its group.\<close>

definition delete_request_of ::
  "env \<Rightarrow> InstanceTemplateRevision \<Rightarrow> InstanceGroupManager \<Rightarrow> Instance \<Rightarrow> delete_request" where
  "delete_request_of env instance_template_revision instance_group_manager inst =
     \<lparr>delete_project = r_project instance_template_revision,
      delete_manager = get_name env instance_group_manager,
      delete_zone = manager_id (m_key instance_group_manager),
      delete_urls = [i_url inst]\<rparr>"

text \<open>
  \<^verbatim>\<open>_delete\<close>. The result is the exception that leaves the function, if any, and the
  state. \<^verbatim>\<open>except net.Error\<close> catches a \<open>NetError\<close> only; the \<^verbatim>\<open>KeyError\<close> of
  \<^verbatim>\<open>result['status']\<close> on a result without status passes through. The format string
  of the warning has a line break between its two \<^verbatim>\<open>%s\<close>, the character \<open>CHR 0x0A\<close>.
\<close>

definition priv_delete ::
  "env \<Rightarrow> InstanceTemplateRevision \<Rightarrow> InstanceGroupManager \<Rightarrow> Instance \<Rightarrow> state \<Rightarrow> error option \<times> state" where
  "priv_delete env instance_template_revision instance_group_manager inst s =
     (if i_deletion_ts inst \<noteq> None then (None, s)
      else
        (let now = utcnow env;
             req = delete_request_of env instance_template_revision instance_group_manager inst;
             s1 = s\<lparr>rpcs := rpcs s @ [req]\<rparr>
         in case delete_instances env req of
              Inr result \<Rightarrow>
                (case status result of
                   None \<Rightarrow> (Some (KeyError ''status''), s1)
                 | Some st \<Rightarrow>
                     if st \<noteq> ''DONE'' then
                       (None, log_warning
                          (''Instance group manager operation failed: %s'' @ [CHR 0x0A] @ ''%s'')
                          s1)
                     else
                       (None, send_machine_event ''DELETION_SCHEDULED'' (i_hostname inst)
                                (set_deletion_time (i_key inst) now s1)))
            | Inl (NetError code) \<Rightarrow>
                if code = Some 400 then
                  (None, send_machine_event ''DELETION_SUCCEEDED'' (i_hostname inst)
                           (set_deletion_time (i_key inst) now s1))
                else (Some (NetError code), s1)
            | Inl e \<Rightarrow> (Some e, s1)))"

definition delete_pending :: "env \<Rightarrow> instance_key \<Rightarrow> state \<Rightarrow> error option \<times> state" where
  "delete_pending env key s =
     (case get_Instance s key of
        None \<Rightarrow> (None, s)
      | Some inst \<Rightarrow>
          if i_deletion_ts inst \<noteq> None then (None, s)
          else if \<not> i_pending_deletion inst then
            (None, log_warning ''Instance not pending deletion: %s'' s)
          else if \<not> truthy (i_url inst) then
            (None, log_warning ''Instance URL unspecified: %s'' s)
          else
            (case get_InstanceGroupManager s (i_instance_group_manager inst) of
               None \<Rightarrow> (None, log_warning ''InstanceGroupManager does not exist: %s'' s)
             | Some instance_group_manager \<Rightarrow>
                 (case get_InstanceTemplateRevision s (manager_parent (m_key instance_group_manager)) of
                    None \<Rightarrow> (None, log_warning ''InstanceTemplateRevision does not exist: %s'' s)
                  | Some instance_template_revision \<Rightarrow>
                      if \<not> truthy (r_project instance_template_revision) then
                        (None, log_warning ''InstanceTemplateRevision project unspecified: %s'' s)
                      else
                        priv_delete env instance_template_revision instance_group_manager inst s)))"

definition delete_drained :: "env \<Rightarrow> instance_key \<Rightarrow> state \<Rightarrow> error option \<times> state" where
  "delete_drained env key s =
     (case get_Instance s key of
        None \<Rightarrow> (None, log_warning ''Instance does not exist: %s'' s)
      | Some inst \<Rightarrow>
          if i_deletion_ts inst \<noteq> None then (None, s)
          else if i_cataloged inst then
            (None, log_warning ''Instance is cataloged: %s'' s)
          else if \<not> truthy (i_url inst) then
            (None, log_warning ''Instance URL unspecified: %s'' s)
          else
            (case get_InstanceGroupManager s (i_instance_group_manager inst) of
               None \<Rightarrow> (None, log_warning ''InstanceGroupManager does not exist: %s'' s)
             | Some instance_group_manager \<Rightarrow>
                 (case get_InstanceTemplateRevision s (manager_parent (m_key instance_group_manager)) of
                    None \<Rightarrow> (None, log_warning ''InstanceTemplateRevision does not exist: %s'' s)
                  | Some instance_template_revision \<Rightarrow>
                      if \<not> truthy (r_project instance_template_revision) then
                        (None, log_warning ''InstanceTemplateRevision project unspecified: %s'' s)
                      else
                        (case get_InstanceTemplate s (revision_parent (r_key instance_template_revision)) of
                           None \<Rightarrow> (None, log_warning ''InstanceTemplate does not exist: %s'' s)
                         | Some instance_template \<Rightarrow>
                             if m_key instance_group_manager \<notin> set (r_drained instance_template_revision)
                             then
                               (if r_key instance_template_revision \<notin> set (t_drained instance_template)
                                then (None, log_warning ''Instance is not drained: %s'' s)
                                else priv_delete env instance_template_revision
                                       instance_group_manager inst s)
                             else
                               priv_delete env instance_template_revision
                                 instance_group_manager inst s))))"

text \<open>
  The drained-inheritance rule in the spec's words, to compare \<open>delete_drained\<close> with:
  the key of the manager that owns the instance is in the drained list of the manager's
  revision, or the key of that revision is in the drained list of its template.
\<close>

definition spec_drained :: "state \<Rightarrow> Instance \<Rightarrow> bool" where
  "spec_drained s inst =
     (case get_InstanceTemplateRevision s (manager_parent (i_instance_group_manager inst)) of
        None \<Rightarrow> False
      | Some revision \<Rightarrow>
          i_instance_group_manager inst \<in> set (r_drained revision)
          \<or> (case get_InstanceTemplate s (revision_parent (r_key revision)) of
                None \<Rightarrow> False
              | Some template \<Rightarrow> r_key revision \<in> set (t_drained template)))"

subsection \<open>A concrete fleet\<close>

text \<open>
  One template \<open>base\<close> with one revision \<open>rev\<close> in project \<open>proj\<close>, one manager in
  \<open>zone\<close> which the revision lists as drained, and one instance \<open>vm\<close> of that manager.
  The theorems below are instantiated on it.
\<close>

definition ex_tkey :: template_key where
  "ex_tkey = TemplateKey ''base''"

definition ex_rkey :: revision_key where
  "ex_rkey = RevisionKey ex_tkey ''rev''"

definition ex_mkey :: manager_key where
  "ex_mkey = ManagerKey ex_rkey ''zone''"

definition ex_key :: instance_key where
  "ex_key = get_instance_key ''base'' ''rev'' ''zone'' ''vm''"

definition ex_instance :: Instance where
  "ex_instance = (new_Instance ex_key ex_mkey ''zones/zone/instances/vm'')\<lparr>i_hostname := Some ''vm''\<rparr>"

definition ex_manager :: InstanceGroupManager where
  "ex_manager = \<lparr>m_key = ex_mkey, m_instances = [ex_key], m_url = Some ''g1''\<rparr>"

definition ex_revision :: InstanceTemplateRevision where
  "ex_revision = \<lparr>r_key = ex_rkey, r_drained = [ex_mkey], r_project = Some ''proj''\<rparr>"

definition ex_template :: InstanceTemplate where
  "ex_template = \<lparr>t_key = ex_tkey, t_drained = []\<rparr>"

text \<open>The store holding the fleet, with the given entity as its one Instance.\<close>

definition ex_state :: "Instance \<Rightarrow> state" where
  "ex_state inst =
     \<lparr>instances = [ex_key \<mapsto> inst], managers = [ex_mkey \<mapsto> ex_manager],
      revisions = [ex_rkey \<mapsto> ex_revision], templates = [ex_tkey \<mapsto> ex_template],
      puts = 0, events = [], rpcs = [], list_calls = [], logs = []\<rparr>"

text \<open>
  An environment whose delete call has the given outcome and whose list call is the
  given function; the instance name is what follows the last slash of the URL.
\<close>

definition ex_env :: "(error + delete_result) \<Rightarrow> (list_request \<Rightarrow> error + page) \<Rightarrow> env" where
  "ex_env outcome listing =
     \<lparr>utcnow = 1000,
      get_instances_in_instance_group = listing,
      delete_instances = (\<lambda>req. outcome),
      get_name = (\<lambda>mgr. template_id (revision_parent (manager_parent (m_key mgr))) @ ''-'' @
                         revision_id (manager_parent (m_key mgr))),
      extract_instance_name = (\<lambda>u. rev (takeWhile (\<lambda>c. c \<noteq> CHR ''/'') (rev u))),
      full_subscription_name = (\<lambda>project subscription.
                                  ''projects/'' @ project @ ''/subscriptions/'' @ subscription)\<rparr>"

text \<open>A listing that knows no group: every request gets one empty page.\<close>

definition ex_no_pages :: "list_request \<Rightarrow> error + page" where
  "ex_no_pages req = Inr \<lparr>items = None, nextPageToken = None\<rparr>"

text \<open>
  A listing of two pages: the request without token gets \<open>A\<close> and the token \<open>t1\<close>, the
  request with \<open>t1\<close> gets the given second page.
\<close>

definition ex_two_pages :: "page \<Rightarrow> list_request \<Rightarrow> error + page" where
  "ex_two_pages second req =
     (if page_token req = None then
        Inr \<lparr>items = Some [\<lparr>item_instance = ''A''\<rparr>], nextPageToken = Some ''t1''\<rparr>
      else Inr second)"

text \<open>
  A listing of three pages \<open>A\<close>, \<open>B\<close>, \<open>C\<close>, joined by the tokens \<open>t1\<close> and \<open>t2\<close>.
\<close>

definition ex_three_pages :: "list_request \<Rightarrow> error + page" where
  "ex_three_pages req =
     (if page_token req = None then
        Inr \<lparr>items = Some [\<lparr>item_instance = ''A''\<rparr>], nextPageToken = Some ''t1''\<rparr>
      else if page_token req = Some ''t1'' then
        Inr \<lparr>items = Some [\<lparr>item_instance = ''B''\<rparr>], nextPageToken = Some ''t2''\<rparr>
      else
        Inr \<lparr>items = Some [\<lparr>item_instance = ''C''\<rparr>], nextPageToken = None\<rparr>)"

text \<open>Instances in the states the theorems need, and a delete call that completes.\<close>

definition ex_leased :: Instance where
  "ex_leased = ex_instance\<lparr>i_lease_expiration_ts := Some 5\<rparr>"

definition ex_marked :: Instance where
  "ex_marked = ex_instance\<lparr>i_lease_expiration_ts := Some 5, i_pending_deletion := True\<rparr>"

definition ex_deleted :: Instance where
  "ex_deleted = ex_instance\<lparr>i_deletion_ts := Some 7, i_pending_deletion := True\<rparr>"

definition ex_cataloged :: Instance where
  "ex_cataloged = ex_instance\<lparr>i_cataloged := True\<rparr>"

definition ex_cataloged_deleted :: Instance where
  "ex_cataloged_deleted = ex_instance\<lparr>i_cataloged := True, i_deletion_ts := Some 7\<rparr>"

definition ex_subscribed :: Instance where
  "ex_subscribed = ex_instance\<lparr>i_pubsub_subscription := Some ''projects/p0/subscriptions/s0''\<rparr>"

definition ex_done :: "error + delete_result" where
  "ex_done = Inr \<lparr>status = Some ''DONE''\<rparr>"

text \<open>The same store with a revision that lists no drained manager.\<close>

definition ex_state_undrained :: "Instance \<Rightarrow> state" where
  "ex_state_undrained inst = (ex_state inst)\<lparr>revisions := [ex_rkey \<mapsto> ex_revision\<lparr>r_drained := []\<rparr>]\<rparr>"

subsection \<open>The pages of a listing\<close>

text \<open>
  What the claims call the pages reported by the API, to compare \<open>fetch\<close> with:
  \<open>page_chain env project mgr result ps\<close> says that \<open>ps\<close> are the pages that follow
  \<open>result\<close>, each one the answer to the request for the group carrying the token of the
  page before it, the last one without a token. \<open>page_urls\<close> are the URLs of a page, none
  when it has no items.
\<close>

primrec page_chain ::
  "env \<Rightarrow> string option \<Rightarrow> InstanceGroupManager \<Rightarrow> page \<Rightarrow> page list \<Rightarrow> bool" where
  "page_chain env project mgr result [] = (\<not> truthy (nextPageToken result))"
| "page_chain env project mgr result (p # ps) =
     (truthy (nextPageToken result)
      \<and> get_instances_in_instance_group env
           (list_request_of env project mgr (nextPageToken result)) = Inr p
      \<and> page_chain env project mgr p ps)"

definition page_urls :: "page \<Rightarrow> string list" where
  "page_urls p = map item_instance (case items p of None \<Rightarrow> [] | Some its \<Rightarrow> its)"

section \<open>Properties\<close>

lemmas store_defs = get_Instance_def get_InstanceGroupManager_def get_InstanceTemplateRevision_def
  get_InstanceTemplate_def put_Instance_def put_InstanceGroupManager_def log_info_def log_warning_def
  send_machine_event_def

lemmas ex_defs = ex_state_def ex_instance_def ex_key_def ex_mkey_def ex_rkey_def ex_tkey_def
  ex_manager_def ex_revision_def ex_template_def ex_env_def new_Instance_def get_instance_key_def

subsection \<open>Creation is idempotent\<close>

text \<open>
  The id of an Instance key is the four components joined by single spaces. A component
  without a space ends at the first space, so the components before the instance name
  can be read back from the id as long as they hold no space.
\<close>

lemma split_at_space:
  "CHR '' '' \<notin> set a \<Longrightarrow> CHR '' '' \<notin> set a' \<Longrightarrow>
   a @ CHR '' '' # x = a' @ CHR '' '' # x' \<Longrightarrow> a = a' \<and> x = x'"
proof (induction a arbitrary: a')
  case Nil
  then show ?case by (cases a') auto
next
  case (Cons c a)
  then show ?case by (cases a') auto
qed

lemma get_instance_key_inject:
  assumes "CHR '' '' \<notin> set (b @ r @ z)" and "CHR '' '' \<notin> set (b' @ r' @ z')"
  shows "(get_instance_key b r z n = get_instance_key b' r' z' n') =
         (b = b' \<and> r = r' \<and> z = z' \<and> n = n')"
proof
  assume "get_instance_key b r z n = get_instance_key b' r' z' n'"
  then have e: "b @ CHR '' '' # (r @ CHR '' '' # (z @ CHR '' '' # n)) =
                b' @ CHR '' '' # (r' @ CHR '' '' # (z' @ CHR '' '' # n'))"
    by (simp add: get_instance_key_def)
  from assms have sp: "CHR '' '' \<notin> set b" "CHR '' '' \<notin> set b'" "CHR '' '' \<notin> set r"
    "CHR '' '' \<notin> set r'" "CHR '' '' \<notin> set z" "CHR '' '' \<notin> set z'"
    by auto
  from split_at_space [OF sp(1,2) e] have b: "b = b'"
    and e2: "r @ CHR '' '' # (z @ CHR '' '' # n) = r' @ CHR '' '' # (z' @ CHR '' '' # n')"
    by auto
  from split_at_space [OF sp(3,4) e2] have r: "r = r'"
    and e3: "z @ CHR '' '' # n = z' @ CHR '' '' # n'"
    by auto
  from split_at_space [OF sp(5,6) e3] b r show "b = b' \<and> r = r' \<and> z = z' \<and> n = n'"
    by auto
next
  assume "b = b' \<and> r = r' \<and> z = z' \<and> n = n'"
  then show "get_instance_key b r z n = get_instance_key b' r' z' n'" by simp
qed

text \<open>
  The two runs of \<open>ensure_entity_exists\<close>: on a key that is not bound it stores the new
  entity (the given key, manager and URL, nothing else set) with one write, and emits
  \<open>CREATED\<close> with the instance name of the URL; on a bound key it returns the state.
\<close>

lemma ensure_entity_exists_absent:
  "get_Instance s k = None \<Longrightarrow>
     ensure_entity_exists env k u m s =
       s\<lparr>instances := (instances s)(k \<mapsto> new_Instance k m u),
         puts := Suc (puts s),
         events := events s @ [(''CREATED'', Some (extract_instance_name env u))],
         logs := logs s @ [(INFO, ''Creating Instance entity: %s'')]\<rparr>"
  by (simp add: ensure_entity_exists_def priv_ensure_entity_exists_def store_defs new_Instance_def)

lemma ensure_entity_exists_present:
  "get_Instance s k \<noteq> None \<Longrightarrow> ensure_entity_exists env k u m s = s"
  by (auto simp: ensure_entity_exists_def)

text \<open>
  C1. Discovery calls \<open>ensure_entity_exists\<close> with the key that \<open>get_instance_key\<close> builds from
  the base name, the revision, the zone and the instance name of the URL: its id is the
  four joined by spaces, and (no space in base name, revision and zone) another base
  name, revision, zone or instance name gives another key. If the key was not bound, the
  call stores under it the new entity for that manager and URL, with one write and one
  \<open>CREATED\<close> event; if it was bound, the state is returned as it is. Either way the key
  is bound afterwards and no other key was added, and a second call with the same key
  and URL leaves the whole state as it is: no write, no further record, no event.
\<close>

theorem ensure_entity_exists_idempotent:
  "let key = get_instance_key base_name revision zone (extract_instance_name env u);
       s1 = ensure_entity_exists env key u m s;
       s2 = ensure_entity_exists env key u m s1
   in instance_id key =
        base_name @ '' '' @ revision @ '' '' @ zone @ '' '' @ extract_instance_name env u
      \<and> (CHR '' '' \<notin> set (base_name @ revision @ zone) \<and> CHR '' '' \<notin> set (base_name' @ revision' @ zone') \<longrightarrow>
            (key = get_instance_key base_name' revision' zone' name') =
            (base_name = base_name' \<and> revision = revision' \<and> zone = zone'
             \<and> extract_instance_name env u = name'))
      \<and> (get_Instance s key = None \<longrightarrow>
            s1 = s\<lparr>instances := (instances s)(key \<mapsto> new_Instance key m u),
                   puts := Suc (puts s),
                   events := events s @ [(''CREATED'', Some (extract_instance_name env u))],
                   logs := logs s @ [(INFO, ''Creating Instance entity: %s'')]\<rparr>
            \<and> get_Instance s1 key = Some (new_Instance key m u))
      \<and> (get_Instance s key \<noteq> None \<longrightarrow> s1 = s)
      \<and> get_Instance s1 key \<noteq> None
      \<and> dom (instances s1) = insert key (dom (instances s))
      \<and> s2 = s1 \<and> puts s2 = puts s1 \<and> events s2 = events s1 \<and> instances s2 = instances s1"
proof -
  let ?key = "get_instance_key base_name revision zone (extract_instance_name env u)"
  let ?s1 = "ensure_entity_exists env ?key u m s"
  have id: "instance_id ?key =
      base_name @ '' '' @ revision @ '' '' @ zone @ '' '' @ extract_instance_name env u"
    by (simp add: get_instance_key_def)
  have inj: "CHR '' '' \<notin> set (base_name @ revision @ zone) \<and>
      CHR '' '' \<notin> set (base_name' @ revision' @ zone') \<longrightarrow>
      (?key = get_instance_key base_name' revision' zone' name') =
      (base_name = base_name' \<and> revision = revision' \<and> zone = zone'
       \<and> extract_instance_name env u = name')"
    using get_instance_key_inject by blast
  have absent: "get_Instance s ?key = None \<longrightarrow>
      ?s1 = s\<lparr>instances := (instances s)(?key \<mapsto> new_Instance ?key m u),
               puts := Suc (puts s),
               events := events s @ [(''CREATED'', Some (extract_instance_name env u))],
               logs := logs s @ [(INFO, ''Creating Instance entity: %s'')]\<rparr>
      \<and> get_Instance ?s1 ?key = Some (new_Instance ?key m u)"
    by (simp add: ensure_entity_exists_absent) (simp add: get_Instance_def new_Instance_def)
  have present: "get_Instance s ?key \<noteq> None \<longrightarrow> ?s1 = s"
    using ensure_entity_exists_present by blast
  have bound: "get_Instance ?s1 ?key \<noteq> None"
    using absent present by (cases "get_Instance s ?key") auto
  have grown: "dom (instances ?s1) = insert ?key (dom (instances s))"
  proof (cases "get_Instance s ?key")
    case None
    with absent show ?thesis by auto
  next
    case (Some e)
    with present have "?s1 = s" by simp
    moreover from Some have "?key \<in> dom (instances s)" by (auto simp: get_Instance_def)
    ultimately show ?thesis by auto
  qed
  have again: "ensure_entity_exists env ?key u m ?s1 = ?s1"
    using bound by (rule ensure_entity_exists_present)
  from again have still: "ensure_entity_exists env ?key u m ?s1 = ?s1
      \<and> puts (ensure_entity_exists env ?key u m ?s1) = puts ?s1
      \<and> events (ensure_entity_exists env ?key u m ?s1) = events ?s1
      \<and> instances (ensure_entity_exists env ?key u m ?s1) = instances ?s1"
    by simp
  from id inj absent present bound grown still show ?thesis
    unfolding Let_def by blast
qed

theorem ensure_entity_exists_idempotent_witness:
  "get_instance_key ''base'' ''rev'' ''zone''
     (extract_instance_name (ex_env ex_done ex_no_pages) ''zones/zone/instances/vm'') = ex_key
   \<and> instance_id ex_key = ''base rev zone vm''
   \<and> CHR '' '' \<notin> set (''base'' @ ''rev'' @ ''zone'')
   \<and> ex_key \<noteq> get_instance_key ''base'' ''rev'' ''zone'' ''other''
   \<and> get_Instance ((ex_state ex_instance)\<lparr>instances := Map.empty\<rparr>) ex_key = None
   \<and> get_Instance
        (ensure_entity_exists (ex_env ex_done ex_no_pages) ex_key ''zones/zone/instances/vm'' ex_mkey
           ((ex_state ex_instance)\<lparr>instances := Map.empty\<rparr>)) ex_key =
       Some (new_Instance ex_key ex_mkey ''zones/zone/instances/vm'')
   \<and> ensure_entity_exists (ex_env ex_done ex_no_pages) ex_key ''zones/zone/instances/vm'' ex_mkey
        ((ex_state ex_instance)\<lparr>instances := Map.empty\<rparr>) =
       (ex_state ex_instance)
         \<lparr>instances := (instances ((ex_state ex_instance)\<lparr>instances := Map.empty\<rparr>))
                          (ex_key \<mapsto> new_Instance ex_key ex_mkey ''zones/zone/instances/vm''),
          puts := Suc (puts ((ex_state ex_instance)\<lparr>instances := Map.empty\<rparr>)),
          events := events ((ex_state ex_instance)\<lparr>instances := Map.empty\<rparr>) @ [(''CREATED'', Some ''vm'')],
          logs := logs ((ex_state ex_instance)\<lparr>instances := Map.empty\<rparr>) @
                    [(INFO, ''Creating Instance entity: %s'')]\<rparr>
   \<and> get_Instance (ex_state ex_instance) ex_key \<noteq> None
   \<and> ensure_entity_exists (ex_env ex_done ex_no_pages) ex_key ''zones/zone/instances/vm'' ex_mkey
        (ex_state ex_instance) = ex_state ex_instance"
proof -
  let ?env = "ex_env ex_done ex_no_pages"
  let ?u = "''zones/zone/instances/vm''"
  let ?empty = "(ex_state ex_instance)\<lparr>instances := Map.empty\<rparr>"
  have name: "extract_instance_name ?env ?u = ''vm''"
    by (simp add: ex_env_def)
  have key: "get_instance_key ''base'' ''rev'' ''zone'' ''vm'' = ex_key"
    by (simp add: ex_key_def)
  have spaces: "CHR '' '' \<notin> set (''base'' @ ''rev'' @ ''zone'')"
    by simp
  have other: "\<not> (''base'' = ''base'' \<and> ''rev'' = ''rev'' \<and> ''zone'' = ''zone'' \<and> ''vm'' = ''other'')"
    by simp
  have absent: "get_Instance ?empty ex_key = None"
    by (simp add: get_Instance_def)
  have present: "get_Instance (ex_state ex_instance) ex_key \<noteq> None"
    by (simp add: get_Instance_def ex_state_def)
  note fresh = ensure_entity_exists_idempotent
    [where base_name = "''base''" and revision = "''rev''" and zone = "''zone''" and env = ?env
       and u = ?u and m = ex_mkey and s = ?empty and base_name' = "''base''"
       and revision' = "''rev''" and zone' = "''zone''" and name' = "''other''",
     unfolded Let_def name key]
  note known = ensure_entity_exists_idempotent
    [where base_name = "''base''" and revision = "''rev''" and zone = "''zone''" and env = ?env
       and u = ?u and m = ex_mkey and s = "ex_state ex_instance" and base_name' = "''base''"
       and revision' = "''rev''" and zone' = "''zone''" and name' = "''other''",
     unfolded Let_def name key]
  from fresh have id: "instance_id ex_key = ''base'' @ '' '' @ ''rev'' @ '' '' @ ''zone'' @ '' '' @ ''vm''"
    by blast
  from fresh spaces other have differ: "ex_key \<noteq> get_instance_key ''base'' ''rev'' ''zone'' ''other''"
    by blast
  from fresh absent have created:
    "ensure_entity_exists ?env ex_key ?u ex_mkey ?empty =
       ?empty\<lparr>instances := (instances ?empty)(ex_key \<mapsto> new_Instance ex_key ex_mkey ?u),
               puts := Suc (puts ?empty),
               events := events ?empty @ [(''CREATED'', Some ''vm'')],
               logs := logs ?empty @ [(INFO, ''Creating Instance entity: %s'')]\<rparr>"
    "get_Instance (ensure_entity_exists ?env ex_key ?u ex_mkey ?empty) ex_key =
       Some (new_Instance ex_key ex_mkey ?u)"
    by blast+
  from known present have kept:
    "ensure_entity_exists ?env ex_key ?u ex_mkey (ex_state ex_instance) = ex_state ex_instance"
    by blast
  from id have id': "instance_id ex_key = ''base rev zone vm''" by simp
  have created': "ensure_entity_exists ?env ex_key ?u ex_mkey ?empty =
       (ex_state ex_instance)
         \<lparr>instances := (instances ?empty)(ex_key \<mapsto> new_Instance ex_key ex_mkey ?u),
          puts := Suc (puts ?empty),
          events := events ?empty @ [(''CREATED'', Some ''vm'')],
          logs := logs ?empty @ [(INFO, ''Creating Instance entity: %s'')]\<rparr>"
    using created(1) by simp
  from name key id' spaces differ absent created(2) created' present kept
  show ?thesis by (simp only: name key) blast
qed

subsection \<open>The delete call and its outcomes\<close>

text \<open>
  C2. The instance is the stored one and has no deletion time, and the delete call raises a
  \<open>NetError\<close>. With status code 400 \<open>_delete\<close> returns normally, the stored instance gets
  the time read before the call, and the one event emitted is \<open>DELETION_SUCCEEDED\<close>. With
  any other status code the error leaves \<open>_delete\<close> and the state differs from the
  initial one by the recorded request only: no deletion time, no event.
\<close>

theorem delete_client_error:
  assumes "get_Instance s k = Some inst" and "i_deletion_ts inst = None"
    and "delete_instances env (delete_request_of env revision mgr inst) = Inl (NetError code)"
  shows "(code = Some 400 \<longrightarrow>
            priv_delete env revision mgr inst s =
              (None, s\<lparr>instances := (instances s)(k \<mapsto> inst\<lparr>i_deletion_ts := Some (utcnow env)\<rparr>),
                       puts := Suc (puts s),
                       events := events s @ [(''DELETION_SUCCEEDED'', i_hostname inst)],
                       rpcs := rpcs s @ [delete_request_of env revision mgr inst]\<rparr>))
       \<and> (code \<noteq> Some 400 \<longrightarrow>
            priv_delete env revision mgr inst s =
              (Some (NetError code), s\<lparr>rpcs := rpcs s @ [delete_request_of env revision mgr inst]\<rparr>))"
  using assms
  by (auto simp: priv_delete_def set_deletion_time_def Let_def store_defs)

theorem delete_client_error_witness:
  "get_Instance (ex_state ex_instance) ex_key = Some ex_instance
   \<and> i_deletion_ts ex_instance = None
   \<and> fst (priv_delete (ex_env (Inl (NetError (Some 400))) ex_no_pages) ex_revision ex_manager
            ex_instance (ex_state ex_instance)) = None
   \<and> events (snd (priv_delete (ex_env (Inl (NetError (Some 400))) ex_no_pages) ex_revision ex_manager
                     ex_instance (ex_state ex_instance))) = [(''DELETION_SUCCEEDED'', Some ''vm'')]
   \<and> map_option i_deletion_ts
        (get_Instance (snd (priv_delete (ex_env (Inl (NetError (Some 400))) ex_no_pages) ex_revision
                              ex_manager ex_instance (ex_state ex_instance))) ex_key) = Some (Some 1000)
   \<and> fst (priv_delete (ex_env (Inl (NetError (Some 503))) ex_no_pages) ex_revision ex_manager
            ex_instance (ex_state ex_instance)) = Some (NetError (Some 503))
   \<and> events (snd (priv_delete (ex_env (Inl (NetError (Some 503))) ex_no_pages) ex_revision ex_manager
                     ex_instance (ex_state ex_instance))) = []
   \<and> get_Instance (snd (priv_delete (ex_env (Inl (NetError (Some 503))) ex_no_pages) ex_revision
                           ex_manager ex_instance (ex_state ex_instance))) ex_key = Some ex_instance"
proof -
  have stored: "get_Instance (ex_state ex_instance) ex_key = Some ex_instance"
    by (simp add: get_Instance_def ex_defs)
  have fresh: "i_deletion_ts ex_instance = None"
    by (simp add: ex_defs)
  have gone: "delete_instances (ex_env (Inl (NetError (Some 400))) ex_no_pages)
        (delete_request_of (ex_env (Inl (NetError (Some 400))) ex_no_pages) ex_revision ex_manager
           ex_instance) = Inl (NetError (Some 400))"
    by (simp add: ex_env_def)
  have down: "delete_instances (ex_env (Inl (NetError (Some 503))) ex_no_pages)
        (delete_request_of (ex_env (Inl (NetError (Some 503))) ex_no_pages) ex_revision ex_manager
           ex_instance) = Inl (NetError (Some 503))"
    by (simp add: ex_env_def)
  show ?thesis
    using stored fresh delete_client_error [OF stored fresh gone]
      delete_client_error [OF stored fresh down]
    by (simp add: get_Instance_def) (simp add: ex_defs)
qed

text \<open>
  C8. The instance has no deletion time and the delete call returns a result whose status
  is present and is not \<open>DONE\<close>. Then \<open>_delete\<close> returns normally and the state differs
  from the initial one by the recorded request and one warning: the store is untouched, so
  no deletion time was written and the next pass finds the instance as it was, and no
  event was emitted.
\<close>

theorem delete_not_done:
  assumes "i_deletion_ts inst = None"
    and "delete_instances env (delete_request_of env revision mgr inst) = Inr result"
    and "status result = Some st" and "st \<noteq> ''DONE''"
  shows "priv_delete env revision mgr inst s =
           (None, s\<lparr>rpcs := rpcs s @ [delete_request_of env revision mgr inst],
                    logs := logs s @
                      [(WARNING, ''Instance group manager operation failed: %s'' @ [CHR 0x0A] @ ''%s'')]\<rparr>)"
  using assms
  by (simp add: priv_delete_def Let_def store_defs)

theorem delete_not_done_witness:
  "i_deletion_ts ex_instance = None
   \<and> ''PENDING'' \<noteq> ''DONE''
   \<and> fst (priv_delete (ex_env (Inr \<lparr>status = Some ''PENDING''\<rparr>) ex_no_pages) ex_revision ex_manager
            ex_instance (ex_state ex_instance)) = None
   \<and> events (snd (priv_delete (ex_env (Inr \<lparr>status = Some ''PENDING''\<rparr>) ex_no_pages) ex_revision
                     ex_manager ex_instance (ex_state ex_instance))) = []
   \<and> get_Instance (snd (priv_delete (ex_env (Inr \<lparr>status = Some ''PENDING''\<rparr>) ex_no_pages) ex_revision
                           ex_manager ex_instance (ex_state ex_instance))) ex_key = Some ex_instance
   \<and> logs (snd (priv_delete (ex_env (Inr \<lparr>status = Some ''PENDING''\<rparr>) ex_no_pages) ex_revision
                   ex_manager ex_instance (ex_state ex_instance))) =
       [(WARNING, ''Instance group manager operation failed: %s'' @ [CHR 0x0A] @ ''%s'')]"
proof -
  have fresh: "i_deletion_ts ex_instance = None"
    by (simp add: ex_defs)
  have pending: "delete_instances (ex_env (Inr \<lparr>status = Some ''PENDING''\<rparr>) ex_no_pages)
        (delete_request_of (ex_env (Inr \<lparr>status = Some ''PENDING''\<rparr>) ex_no_pages) ex_revision
           ex_manager ex_instance) = Inr \<lparr>status = Some ''PENDING''\<rparr>"
    by (simp add: ex_env_def)
  have st: "status \<lparr>status = Some ''PENDING''\<rparr> = Some ''PENDING''" by simp
  have ne: "''PENDING'' \<noteq> ''DONE''" by simp
  show ?thesis
    using fresh delete_not_done [OF fresh pending st ne, of "ex_state ex_instance"]
    by (simp add: get_Instance_def) (simp add: ex_defs)
qed

subsection \<open>Marking for deletion\<close>

text \<open>
  C3, as the code has it. The guard of \<open>mark_for_deletion\<close> is the flag itself. On an
  existing instance that is not yet pending deletion the first call sets the flag, clears
  the lease, writes once and emits \<open>DELETION_PROPOSED\<close> once; on an instance that is already
  pending deletion a call changes nothing, whatever its lease. In both cases the second
  of two calls changes nothing.
\<close>

theorem mark_for_deletion_idempotent:
  assumes "get_Instance s k = Some inst"
  shows "mark_for_deletion k (mark_for_deletion k s) = mark_for_deletion k s
       \<and> (\<not> i_pending_deletion inst \<longrightarrow>
            get_Instance (mark_for_deletion k s) k =
              Some (inst\<lparr>i_lease_expiration_ts := None, i_pending_deletion := True\<rparr>)
            \<and> puts (mark_for_deletion k s) = Suc (puts s)
            \<and> events (mark_for_deletion k s) = events s @ [(''DELETION_PROPOSED'', i_hostname inst)])
       \<and> (i_pending_deletion inst \<longrightarrow> mark_for_deletion k s = s)"
  using assms
  by (auto simp: mark_for_deletion_def store_defs)

theorem mark_for_deletion_idempotent_witness:
  "get_Instance (ex_state ex_leased) ex_key = Some ex_leased
   \<and> \<not> i_pending_deletion ex_leased
   \<and> get_Instance (mark_for_deletion ex_key (mark_for_deletion ex_key (ex_state ex_leased))) ex_key =
       Some (ex_instance\<lparr>i_pending_deletion := True\<rparr>)
   \<and> puts (mark_for_deletion ex_key (mark_for_deletion ex_key (ex_state ex_leased))) = 1
   \<and> events (mark_for_deletion ex_key (mark_for_deletion ex_key (ex_state ex_leased))) =
       [(''DELETION_PROPOSED'', Some ''vm'')]
   \<and> get_Instance (ex_state ex_marked) ex_key = Some ex_marked
   \<and> i_pending_deletion ex_marked
   \<and> mark_for_deletion ex_key (ex_state ex_marked) = ex_state ex_marked"
proof -
  have leased: "get_Instance (ex_state ex_leased) ex_key = Some ex_leased"
    by (simp add: get_Instance_def ex_leased_def ex_defs)
  have marked: "get_Instance (ex_state ex_marked) ex_key = Some ex_marked"
    by (simp add: get_Instance_def ex_marked_def ex_defs)
  have flags: "\<not> i_pending_deletion ex_leased" "i_pending_deletion ex_marked"
    by (simp_all add: ex_leased_def ex_marked_def ex_defs)
  show ?thesis
    using leased marked flags mark_for_deletion_idempotent [OF leased]
      mark_for_deletion_idempotent [OF marked]
    by (simp add: ex_leased_def ex_defs)
qed

text \<open>
  The claim as it is written speaks of every existing instance. The instance \<open>ex_marked\<close>
  exists, is pending deletion and holds a lease: after two calls its lease is still there,
  nothing was written and no event was emitted.
\<close>

theorem mark_for_deletion_counterexample:
  "get_Instance (ex_state ex_marked) ex_key = Some ex_marked
   \<and> map_option i_lease_expiration_ts
        (get_Instance (mark_for_deletion ex_key (mark_for_deletion ex_key (ex_state ex_marked))) ex_key) =
       Some (Some 5)
   \<and> events (mark_for_deletion ex_key (mark_for_deletion ex_key (ex_state ex_marked))) = []
   \<and> puts (mark_for_deletion ex_key (mark_for_deletion ex_key (ex_state ex_marked))) = 0"
  by (simp add: mark_for_deletion_def get_Instance_def ex_marked_def ex_defs)

subsection \<open>The deletion time is written once\<close>

text \<open>
  C4. \<open>set_deletion_time\<close> changes nothing when the instance is missing and nothing when its
  deletion time is set; whatever key it is called with, an instance whose deletion time is
  set reads back as it was. When the deletion time of the instance is set, \<open>delete_pending\<close>
  and \<open>delete_drained\<close> return normally with the state untouched: no request sent, no
  event emitted.
\<close>

theorem deletion_ts_write_once:
  "(get_Instance s k = None \<longrightarrow> set_deletion_time k ts s = s)
   \<and> (get_Instance s k = Some inst \<and> i_deletion_ts inst = Some t \<longrightarrow>
         set_deletion_time k ts s = s
         \<and> delete_pending env k s = (None, s)
         \<and> delete_drained env k s = (None, s))
   \<and> (get_Instance s k' = Some inst' \<and> i_deletion_ts inst' = Some t' \<longrightarrow>
         get_Instance (set_deletion_time k ts s) k' = Some inst')"
  by (auto simp: set_deletion_time_def delete_pending_def delete_drained_def store_defs
      split: option.splits)

theorem deletion_ts_write_once_witness:
  "get_Instance (ex_state ex_deleted) (InstanceKey ''nowhere'') = None
   \<and> set_deletion_time (InstanceKey ''nowhere'') 9 (ex_state ex_deleted) = ex_state ex_deleted
   \<and> get_Instance (ex_state ex_deleted) ex_key = Some ex_deleted
   \<and> i_deletion_ts ex_deleted = Some 7
   \<and> set_deletion_time ex_key 9 (ex_state ex_deleted) = ex_state ex_deleted
   \<and> delete_pending (ex_env ex_done ex_no_pages) ex_key (ex_state ex_deleted) = (None, ex_state ex_deleted)
   \<and> delete_drained (ex_env ex_done ex_no_pages) ex_key (ex_state ex_deleted) = (None, ex_state ex_deleted)
   \<and> get_Instance (set_deletion_time ex_key 9 (ex_state ex_deleted)) ex_key = Some ex_deleted"
proof -
  have missing: "get_Instance (ex_state ex_deleted) (InstanceKey ''nowhere'') = None"
    by (simp add: get_Instance_def ex_defs)
  have stored: "get_Instance (ex_state ex_deleted) ex_key = Some ex_deleted"
    by (simp add: get_Instance_def ex_deleted_def ex_defs)
  have stamped: "i_deletion_ts ex_deleted = Some 7"
    by (simp add: ex_deleted_def)
  show ?thesis
    using missing stored stamped
      deletion_ts_write_once [of "ex_state ex_deleted" "InstanceKey ''nowhere''" 9 ex_deleted 7
        "ex_env ex_done ex_no_pages" ex_key ex_deleted 7]
      deletion_ts_write_once [of "ex_state ex_deleted" ex_key 9 ex_deleted 7
        "ex_env ex_done ex_no_pages" ex_key ex_deleted 7]
    by simp
qed

subsection \<open>Lease and subscription\<close>

text \<open>
  C10. \<open>add_lease_expiration_ts\<close> does not read the flag. On an existing instance that is
  pending deletion, a timestamp that differs from the stored lease becomes the lease and
  the flag stays set. \<open>mark_for_deletion\<close> on an instance that is not yet pending clears the
  lease as it sets the flag; yet whatever the instance, after \<open>mark_for_deletion\<close> and then
  \<open>add_lease_expiration_ts\<close> with a timestamp, the instance is pending deletion and holds
  that lease.
\<close>

theorem add_lease_after_mark:
  assumes "get_Instance s k = Some inst"
  shows "(i_pending_deletion inst \<and> i_lease_expiration_ts inst \<noteq> Some t \<longrightarrow>
            get_Instance (add_lease_expiration_ts k (Some t) s) k =
              Some (inst\<lparr>i_lease_expiration_ts := Some t\<rparr>)
            \<and> i_pending_deletion (inst\<lparr>i_lease_expiration_ts := Some t\<rparr>))
       \<and> (\<not> i_pending_deletion inst \<longrightarrow>
            get_Instance (mark_for_deletion k s) k =
              Some (inst\<lparr>i_lease_expiration_ts := None, i_pending_deletion := True\<rparr>))
       \<and> (\<exists>inst'. get_Instance (add_lease_expiration_ts k (Some t) (mark_for_deletion k s)) k = Some inst'
             \<and> i_pending_deletion inst' \<and> i_lease_expiration_ts inst' = Some t)"
  using assms
  by (auto simp: add_lease_expiration_ts_def mark_for_deletion_def store_defs)

theorem add_lease_after_mark_witness:
  "get_Instance (ex_state ex_marked) ex_key = Some ex_marked
   \<and> i_pending_deletion ex_marked \<and> i_lease_expiration_ts ex_marked \<noteq> Some 99
   \<and> get_Instance (add_lease_expiration_ts ex_key (Some 99) (ex_state ex_marked)) ex_key =
       Some (ex_marked\<lparr>i_lease_expiration_ts := Some 99\<rparr>)
   \<and> get_Instance (ex_state ex_leased) ex_key = Some ex_leased
   \<and> \<not> i_pending_deletion ex_leased
   \<and> get_Instance (mark_for_deletion ex_key (ex_state ex_leased)) ex_key =
       Some (ex_leased\<lparr>i_lease_expiration_ts := None, i_pending_deletion := True\<rparr>)
   \<and> (\<exists>inst'. get_Instance (add_lease_expiration_ts ex_key (Some 99)
                               (mark_for_deletion ex_key (ex_state ex_leased))) ex_key = Some inst'
          \<and> i_pending_deletion inst' \<and> i_lease_expiration_ts inst' = Some 99)"
proof -
  have marked: "get_Instance (ex_state ex_marked) ex_key = Some ex_marked"
    by (simp add: get_Instance_def ex_marked_def ex_defs)
  have leased: "get_Instance (ex_state ex_leased) ex_key = Some ex_leased"
    by (simp add: get_Instance_def ex_leased_def ex_defs)
  have flags: "i_pending_deletion ex_marked" "i_lease_expiration_ts ex_marked \<noteq> Some 99"
    "\<not> i_pending_deletion ex_leased"
    by (simp_all add: ex_leased_def ex_marked_def ex_defs)
  show ?thesis
    using marked leased flags add_lease_after_mark [OF marked, of 99]
      add_lease_after_mark [OF leased, of 99]
    by simp
qed

text \<open>
  C7. The first write wins. On an existing instance whose subscription is not set the call
  records the account and the full subscription name and appends one metadata update; on
  an instance whose subscription is set a call is a no-op whatever its arguments. So a
  second call after a first one changes nothing, the full subscription name being a
  non-empty string (the name is built outside this module; an empty one would read as
  not set).
\<close>

theorem add_subscription_metadata_first_write_wins:
  assumes "get_Instance s k = Some inst"
  shows "(\<not> truthy (i_pubsub_subscription inst) \<longrightarrow>
            get_Instance (add_subscription_metadata env k project subscription account s) k =
              Some (inst\<lparr>i_pending_metadata_updates :=
                           i_pending_metadata_updates inst @
                             [\<lparr>metadata = [(''pubsub_service_account'', account),
                                           (''pubsub_subscription'', subscription),
                                           (''pubsub_subscription_project'', project)]\<rparr>],
                         i_pubsub_service_account := Some account,
                         i_pubsub_subscription := Some (full_subscription_name env project subscription)\<rparr>))
       \<and> (truthy (i_pubsub_subscription inst) \<longrightarrow>
            add_subscription_metadata env k project' subscription' account' s = s)
       \<and> (\<not> truthy (i_pubsub_subscription inst) \<and> full_subscription_name env project subscription \<noteq> [] \<longrightarrow>
            add_subscription_metadata env k project' subscription' account'
              (add_subscription_metadata env k project subscription account s) =
            add_subscription_metadata env k project subscription account s)"
  using assms
  by (auto simp: add_subscription_metadata_def store_defs truthy_def)

theorem add_subscription_metadata_first_write_wins_witness:
  "get_Instance (ex_state ex_instance) ex_key = Some ex_instance
   \<and> \<not> truthy (i_pubsub_subscription ex_instance)
   \<and> full_subscription_name (ex_env ex_done ex_no_pages) ''p1'' ''s1'' \<noteq> []
   \<and> get_Instance
        (add_subscription_metadata (ex_env ex_done ex_no_pages) ex_key ''p2'' ''s2'' ''a2''
           (add_subscription_metadata (ex_env ex_done ex_no_pages) ex_key ''p1'' ''s1'' ''a1''
              (ex_state ex_instance))) ex_key =
       Some (ex_instance\<lparr>i_pending_metadata_updates :=
                           [\<lparr>metadata = [(''pubsub_service_account'', ''a1''),
                                         (''pubsub_subscription'', ''s1''),
                                         (''pubsub_subscription_project'', ''p1'')]\<rparr>],
                         i_pubsub_service_account := Some ''a1'',
                         i_pubsub_subscription := Some ''projects/p1/subscriptions/s1''\<rparr>)
   \<and> get_Instance (ex_state ex_subscribed) ex_key = Some ex_subscribed
   \<and> truthy (i_pubsub_subscription ex_subscribed)
   \<and> add_subscription_metadata (ex_env ex_done ex_no_pages) ex_key ''p2'' ''s2'' ''a2''
        (ex_state ex_subscribed) = ex_state ex_subscribed"
proof -
  have plain: "get_Instance (ex_state ex_instance) ex_key = Some ex_instance"
    by (simp add: get_Instance_def ex_defs)
  have subscribed: "get_Instance (ex_state ex_subscribed) ex_key = Some ex_subscribed"
    by (simp add: get_Instance_def ex_subscribed_def ex_defs)
  have flags: "\<not> truthy (i_pubsub_subscription ex_instance)"
    "truthy (i_pubsub_subscription ex_subscribed)"
    "full_subscription_name (ex_env ex_done ex_no_pages) ''p1'' ''s1'' \<noteq> []"
    by (simp_all add: truthy_def ex_subscribed_def ex_defs)
  have name: "full_subscription_name (ex_env ex_done ex_no_pages) ''p1'' ''s1'' =
      ''projects/p1/subscriptions/s1''"
    by (simp add: ex_env_def)
  have pending: "i_pending_metadata_updates ex_instance = []"
    by (simp add: ex_defs)
  show ?thesis
    using plain subscribed flags
      add_subscription_metadata_first_write_wins [OF plain,
        of "ex_env ex_done ex_no_pages" "''p1''" "''s1''" "''a1''" "''p2''" "''s2''" "''a2''"]
      add_subscription_metadata_first_write_wins [OF subscribed,
        of "ex_env ex_done ex_no_pages" "''p1''" "''s1''" "''a1''" "''p2''" "''s2''" "''a2''"]
    by (simp add: name pending)
qed

subsection \<open>Discovery\<close>

text \<open>
  C9. When the manager is missing, or its URL is not set, or the revision above the key is
  missing, or the project of that revision is not set, \<open>fetch\<close> returns the empty list
  (it returns: the result is \<open>Some\<close>, and it is not an error), and the state it returns
  is the initial one with one warning added, so no request went to the API.
\<close>

theorem fetch_precondition_failures:
  assumes "get_InstanceGroupManager s key = None
           \<or> (\<exists>mgr. get_InstanceGroupManager s key = Some mgr \<and> \<not> truthy (m_url mgr))
           \<or> get_InstanceTemplateRevision s (manager_parent key) = None
           \<or> (\<exists>revision. get_InstanceTemplateRevision s (manager_parent key) = Some revision
                 \<and> \<not> truthy (r_project revision))"
  shows "\<exists>msg. fetch env key s = Some (Inr [], log_warning msg s)
               \<and> list_calls (log_warning msg s) = list_calls s"
  using assms
  by (auto simp: fetch_def log_warning_def split: option.splits)

theorem fetch_precondition_failures_witness:
  "get_InstanceGroupManager (ex_state ex_instance) (ManagerKey ex_rkey ''elsewhere'') = None
   \<and> (\<exists>msg. fetch (ex_env ex_done (ex_two_pages \<lparr>items = None, nextPageToken = None\<rparr>))
               (ManagerKey ex_rkey ''elsewhere'') (ex_state ex_instance) =
             Some (Inr [], log_warning msg (ex_state ex_instance))
           \<and> list_calls (log_warning msg (ex_state ex_instance)) = list_calls (ex_state ex_instance))
   \<and> get_InstanceTemplateRevision
        ((ex_state ex_instance)\<lparr>revisions := [ex_rkey \<mapsto> ex_revision\<lparr>r_project := Some []\<rparr>]\<rparr>)
        (manager_parent ex_mkey) = Some (ex_revision\<lparr>r_project := Some []\<rparr>)
   \<and> \<not> truthy (r_project (ex_revision\<lparr>r_project := Some []\<rparr>))
   \<and> (\<exists>msg. fetch (ex_env ex_done (ex_two_pages \<lparr>items = None, nextPageToken = None\<rparr>)) ex_mkey
               ((ex_state ex_instance)\<lparr>revisions := [ex_rkey \<mapsto> ex_revision\<lparr>r_project := Some []\<rparr>]\<rparr>) =
             Some (Inr [], log_warning msg
                    ((ex_state ex_instance)\<lparr>revisions := [ex_rkey \<mapsto> ex_revision\<lparr>r_project := Some []\<rparr>]\<rparr>))
           \<and> list_calls (log_warning msg
                    ((ex_state ex_instance)\<lparr>revisions := [ex_rkey \<mapsto> ex_revision\<lparr>r_project := Some []\<rparr>]\<rparr>)) =
              list_calls ((ex_state ex_instance)\<lparr>revisions := [ex_rkey \<mapsto> ex_revision\<lparr>r_project := Some []\<rparr>]\<rparr>))"
proof -
  have missing: "get_InstanceGroupManager (ex_state ex_instance) (ManagerKey ex_rkey ''elsewhere'') = None"
    by (simp add: get_InstanceGroupManager_def ex_defs)
  have unset: "get_InstanceTemplateRevision
        ((ex_state ex_instance)\<lparr>revisions := [ex_rkey \<mapsto> ex_revision\<lparr>r_project := Some []\<rparr>]\<rparr>)
        (manager_parent ex_mkey) = Some (ex_revision\<lparr>r_project := Some []\<rparr>)"
    by (simp add: get_InstanceTemplateRevision_def ex_defs)
  have empty: "\<not> truthy (r_project (ex_revision\<lparr>r_project := Some []\<rparr>))"
    by (simp add: truthy_def)
  show ?thesis
    using missing unset empty
      fetch_precondition_failures [of "ex_state ex_instance" "ManagerKey ex_rkey ''elsewhere''"
        "ex_env ex_done (ex_two_pages \<lparr>items = None, nextPageToken = None\<rparr>)"]
      fetch_precondition_failures
        [of "(ex_state ex_instance)\<lparr>revisions := [ex_rkey \<mapsto> ex_revision\<lparr>r_project := Some []\<rparr>]\<rparr>"
          ex_mkey "ex_env ex_done (ex_two_pages \<lparr>items = None, nextPageToken = None\<rparr>)"]
    by blast
qed

text \<open>
  What \<open>fetch\<close> does return. The loop ends at a page without token, whatever the
  variable holds.
\<close>

lemma fetch_pages_end:
  "\<not> truthy (nextPageToken result) \<Longrightarrow>
     fetch_pages env project inst result acc s = Some (Inr acc, s)"
  by (subst fetch_pages.simps) simp

text \<open>
  Entered with the manager in the variable and a page that is followed by the pages
  \<open>ps\<close>, each of them with an \<open>items\<close> entry and all but the last with no item in it, the
  loop ends and returns the URLs gathered so far followed by those of \<open>ps\<close> in order; it
  sends one request per page.
\<close>

lemma fetch_pages_chain:
  assumes "page_chain env project mgr result ps" and "\<forall>p \<in> set ps. items p \<noteq> None"
    and "\<forall>p \<in> set (butlast ps). items p = Some []"
  shows "\<exists>s'. fetch_pages env project (Manager mgr) result acc s =
                Some (Inr (acc @ concat (map page_urls ps)), s')
              \<and> length (list_calls s') = length (list_calls s) + length ps
              \<and> instances s' = instances s"
  using assms
proof (induction ps arbitrary: result acc s)
  case Nil
  then show ?case by (simp add: fetch_pages_end)
next
  case (Cons p ps)
  from Cons.prems obtain its where its: "items p = Some its" by auto
  have urls: "page_urls p = map item_instance its"
    using its by (simp add: page_urls_def)
  let ?s1 = "s\<lparr>list_calls := list_calls s @
                 [list_request_of env project mgr (nextPageToken result)]\<rparr>"
  let ?inst = "if its = [] then Manager mgr else Item (last its)"
  from Cons.prems have step: "fetch_pages env project (Manager mgr) result acc s =
      fetch_pages env project ?inst p (acc @ map item_instance its) ?s1"
    by (subst fetch_pages.simps) (simp add: its)
  show ?case
  proof (cases "ps = []")
    case True
    with Cons.prems have "\<not> truthy (nextPageToken p)" by simp
    then have "fetch_pages env project ?inst p (acc @ map item_instance its) ?s1 =
        Some (Inr (acc @ map item_instance its), ?s1)"
      by (rule fetch_pages_end)
    with step True urls show ?thesis
      by (intro exI [of _ ?s1]) simp
  next
    case False
    with Cons.prems its have empty: "its = []" by simp
    from Cons.prems False have rest: "page_chain env project mgr p ps"
      "\<forall>p \<in> set ps. items p \<noteq> None" "\<forall>p \<in> set (butlast ps). items p = Some []"
      by auto
    from Cons.IH [OF rest, of "acc @ map item_instance its" ?s1]
    obtain s' where s': "fetch_pages env project (Manager mgr) p (acc @ map item_instance its) ?s1 =
          Some (Inr ((acc @ map item_instance its) @ concat (map page_urls ps)), s')"
        "length (list_calls s') = length (list_calls ?s1) + length ps"
        "instances s' = instances ?s1"
      by blast
    with step empty urls show ?thesis
      by (intro exI [of _ s']) simp
  qed
qed

text \<open>
  All of \<open>fetch\<close>: the preconditions hold, the first request (500 results, no token) is
  answered by \<open>first\<close>, and \<open>ps\<close> are the pages that follow, as above. Two pages are the
  case \<open>ps = [p]\<close>.
\<close>

lemma fetch_returns_all_pages:
  assumes "get_InstanceGroupManager s key = Some mgr" and "truthy (m_url mgr)"
    and "get_InstanceTemplateRevision s (manager_parent key) = Some revision"
    and "truthy (r_project revision)"
    and "get_instances_in_instance_group env (list_request_of env (r_project revision) mgr None) =
           Inr first"
    and "page_chain env (r_project revision) mgr first ps"
    and "\<forall>p \<in> set ps. items p \<noteq> None" and "\<forall>p \<in> set (butlast ps). items p = Some []"
  shows "\<exists>s'. fetch env key s = Some (Inr (concat (map page_urls (first # ps))), s')
              \<and> length (list_calls s') = length (list_calls s) + Suc (length ps)
              \<and> instances s' = instances s"
proof -
  let ?s1 = "s\<lparr>list_calls := list_calls s @ [list_request_of env (r_project revision) mgr None]\<rparr>"
  from assms(1-5) have "fetch env key s =
      fetch_pages env (r_project revision) (Manager mgr) first (page_urls first) ?s1"
    by (simp add: fetch_def Let_def page_urls_def)
  with fetch_pages_chain [OF assms(6-8), of "page_urls first" ?s1]
  show ?thesis by auto
qed

text \<open>The two pages \<open>A\<close> and \<open>B\<close> of the spec's scenario.\<close>

lemma fetch_two_pages:
  "fetch (ex_env ex_done (ex_two_pages \<lparr>items = Some [\<lparr>item_instance = ''B''\<rparr>], nextPageToken = None\<rparr>))
     ex_mkey (ex_state ex_instance) =
   Some (Inr [''A'', ''B''],
         (ex_state ex_instance)\<lparr>list_calls :=
            [\<lparr>list_project = Some ''proj'', list_manager = ''base-rev'', list_zone = ''zone'',
              max_results = 500, page_token = None\<rparr>,
             \<lparr>list_project = Some ''proj'', list_manager = ''base-rev'', list_zone = ''zone'',
              max_results = 500, page_token = Some ''t1''\<rparr>]\<rparr>)"
  by (simp add: fetch_def fetch_pages.simps list_request_of_def ex_two_pages_def truthy_def
      get_InstanceGroupManager_def get_InstanceTemplateRevision_def ex_defs Let_def)

text \<open>
  C5. The claim has \<open>fetch\<close> follow the tokens to the last page. On the three pages
  \<open>A\<close>, \<open>B\<close>, \<open>C\<close> the loop reads \<open>B\<close>, which leaves the item of \<open>B\<close> in the variable
  \<^verbatim>\<open>instance\<close>, and the request for \<open>C\<close> fails with \<open>AttributeError\<close> where the claim
  has \<open>[A, B, C]\<close>. And when the page that answers the token \<open>t1\<close> has no \<open>items\<close>
  entry, the loop, reading \<open>result['items']\<close>, ends with \<open>KeyError\<close> where the claim has
  \<open>[A]\<close>; the same page as the answer to the first request is taken for an empty page.
\<close>

theorem fetch_beyond_second_page:
  "map_option fst (fetch (ex_env ex_done ex_three_pages) ex_mkey (ex_state ex_instance)) =
     Some (Inl (AttributeError ''key''))
   \<and> map_option fst
        (fetch (ex_env ex_done (ex_two_pages \<lparr>items = None, nextPageToken = None\<rparr>)) ex_mkey
           (ex_state ex_instance)) = Some (Inl (KeyError ''items''))
   \<and> map_option fst (fetch (ex_env ex_done ex_no_pages) ex_mkey (ex_state ex_instance)) = Some (Inr [])"
  by (simp add: fetch_def fetch_pages.simps list_request_of_def ex_three_pages_def ex_two_pages_def
      ex_no_pages_def truthy_def get_InstanceGroupManager_def get_InstanceTemplateRevision_def
      ex_defs Let_def)

text \<open>
  The dict of \<open>ensure_entities_exist\<close> binds every URL of the list to its key, so the
  lookup in the callback never fails.
\<close>

lemma map_of_dict_set: "map_of (dict_set d k v) = (map_of d)(k \<mapsto> v)"
  by (induction d) (auto simp: fun_eq_iff)

lemma map_of_dict_fold:
  "map_of (fold (\<lambda>x d. dict_set d x (f x)) xs d) k = (if k \<in> set xs then Some (f k) else map_of d k)"
  by (induction xs arbitrary: d) (auto simp: map_of_dict_set)

lemma dict_get_comprehension:
  "u \<in> set xs \<Longrightarrow> dict_get (dict_comprehension f xs) u = Inr (f u)"
  by (simp add: dict_get_def dict_comprehension_def map_of_dict_fold)

text \<open>
  The scenario of the spec on an empty Instance store: two rows, under the keys derived
  from \<open>A\<close> and \<open>B\<close>, one \<open>CREATED\<close> event each, and the manager lists the two keys.
\<close>

lemma ensure_entities_exist_two_pages:
  "case ensure_entities_exist
          (ex_env ex_done (ex_two_pages \<lparr>items = Some [\<lparr>item_instance = ''B''\<rparr>], nextPageToken = None\<rparr>))
          ex_mkey ((ex_state ex_instance)\<lparr>instances := Map.empty\<rparr>) of
     Some (None, s') \<Rightarrow>
       dom (instances s') =
         {get_instance_key ''base'' ''rev'' ''zone'' ''A'', get_instance_key ''base'' ''rev'' ''zone'' ''B''}
       \<and> map_option m_instances (get_InstanceGroupManager s' ex_mkey) =
           Some [get_instance_key ''base'' ''rev'' ''zone'' ''A'',
                 get_instance_key ''base'' ''rev'' ''zone'' ''B'']
       \<and> events s' = [(''CREATED'', Some ''A''), (''CREATED'', Some ''B'')]
   | _ \<Rightarrow> False"
proof -
  have listing: "fetch (ex_env ex_done (ex_two_pages \<lparr>items = Some [\<lparr>item_instance = ''B''\<rparr>], nextPageToken = None\<rparr>))
     ex_mkey ((ex_state ex_instance)\<lparr>instances := Map.empty\<rparr>) =
   Some (Inr [''A'', ''B''],
         (ex_state ex_instance)\<lparr>instances := Map.empty, list_calls :=
            [\<lparr>list_project = Some ''proj'', list_manager = ''base-rev'', list_zone = ''zone'',
              max_results = 500, page_token = None\<rparr>,
             \<lparr>list_project = Some ''proj'', list_manager = ''base-rev'', list_zone = ''zone'',
              max_results = 500, page_token = Some ''t1''\<rparr>]\<rparr>)"
    by (simp add: fetch_def fetch_pages.simps list_request_of_def ex_two_pages_def truthy_def
        get_InstanceGroupManager_def get_InstanceTemplateRevision_def ex_defs Let_def)
  show ?thesis
    by (simp add: ensure_entities_exist_def listing Let_def)
       (simp add: batch_process_async_def dict_comprehension_def dict_get_def dict_values_def
          ensure_entity_exists_def priv_ensure_entity_exists_def set_instances_def store_defs
          ex_defs insert_commute)
qed

subsection \<open>Drained instances\<close>

text \<open>An entity read from the store carries the key it was read with.\<close>

lemma get_InstanceGroupManager_key: "get_InstanceGroupManager s k = Some mgr \<Longrightarrow> m_key mgr = k"
  by (auto simp: get_InstanceGroupManager_def)

lemma get_InstanceTemplateRevision_key:
  "get_InstanceTemplateRevision s k = Some revision \<Longrightarrow> r_key revision = k"
  by (auto simp: get_InstanceTemplateRevision_def)

lemma delete_drained_refuses:
  assumes inst: "get_Instance s k = Some inst"
    and no: "i_cataloged inst \<or> \<not> spec_drained s inst"
  shows "fst (delete_drained env k s) = None
       \<and> (if i_deletion_ts inst = None
           then \<exists>msg. snd (delete_drained env k s) = log_warning msg s
           else snd (delete_drained env k s) = s)"
proof (cases "i_deletion_ts inst = None")
  case False
  then obtain t where "i_deletion_ts inst = Some t" by auto
  with inst show ?thesis by (auto simp: delete_drained_def)
next
  case ts: True
  show ?thesis
  proof (cases "i_cataloged inst")
    case True
    with inst ts show ?thesis by (auto simp: delete_drained_def)
  next
    case uncataloged: False
    with no have nd: "\<not> spec_drained s inst" by simp
    show ?thesis
    proof (cases "truthy (i_url inst)")
      case False
      with inst ts uncataloged show ?thesis by (auto simp: delete_drained_def)
    next
      case has_url: True
      show ?thesis
      proof (cases "get_InstanceGroupManager s (i_instance_group_manager inst)")
        case None
        with inst ts uncataloged has_url show ?thesis by (auto simp: delete_drained_def)
      next
        case mgr: (Some mgr)
        then have mk: "m_key mgr = i_instance_group_manager inst"
          by (rule get_InstanceGroupManager_key)
        show ?thesis
        proof (cases "get_InstanceTemplateRevision s (manager_parent (i_instance_group_manager inst))")
          case None
          with inst ts uncataloged has_url mgr mk show ?thesis by (auto simp: delete_drained_def)
        next
          case rev: (Some revision)
          then have rk: "r_key revision = manager_parent (i_instance_group_manager inst)"
            by (rule get_InstanceTemplateRevision_key)
          from nd rev have outside: "i_instance_group_manager inst \<notin> set (r_drained revision)"
            by (simp add: spec_drained_def)
          show ?thesis
          proof (cases "truthy (r_project revision)")
            case False
            with inst ts uncataloged has_url mgr mk rev show ?thesis
              by (auto simp: delete_drained_def)
          next
            case project: True
            show ?thesis
            proof (cases "get_InstanceTemplate s (revision_parent (r_key revision))")
              case None
              with inst ts uncataloged has_url mgr mk rev project show ?thesis
                by (auto simp: delete_drained_def)
            next
              case (Some template)
              with nd rev outside have "r_key revision \<notin> set (t_drained template)"
                by (simp add: spec_drained_def)
              with Some inst ts uncataloged has_url mgr mk rev project outside show ?thesis
                by (auto simp: delete_drained_def)
            qed
          qed
        qed
      qed
    qed
  qed
qed

text \<open>
  C6, as the code has it. \<open>delete_drained\<close> on an existing instance sends a delete request
  only if the instance is not cataloged and the drained rule holds. When the instance is
  cataloged, or the drained rule fails, it returns normally, sends no request, emits no
  event and leaves the store as it is; it logs one warning, unless the deletion time of
  the instance is set: that check comes first and returns without a word.
\<close>

theorem delete_drained_guard:
  assumes "get_Instance s k = Some inst"
  shows "(rpcs (snd (delete_drained env k s)) \<noteq> rpcs s \<longrightarrow>
            \<not> i_cataloged inst \<and> spec_drained s inst)
       \<and> (i_cataloged inst \<or> \<not> spec_drained s inst \<longrightarrow>
            fst (delete_drained env k s) = None
            \<and> rpcs (snd (delete_drained env k s)) = rpcs s
            \<and> events (snd (delete_drained env k s)) = events s
            \<and> instances (snd (delete_drained env k s)) = instances s
            \<and> (if i_deletion_ts inst = None
                then \<exists>msg. snd (delete_drained env k s) = log_warning msg s
                else snd (delete_drained env k s) = s))"
proof -
  have refuse: "fst (delete_drained env k s) = None
       \<and> rpcs (snd (delete_drained env k s)) = rpcs s
       \<and> events (snd (delete_drained env k s)) = events s
       \<and> instances (snd (delete_drained env k s)) = instances s
       \<and> (if i_deletion_ts inst = None
           then \<exists>msg. snd (delete_drained env k s) = log_warning msg s
           else snd (delete_drained env k s) = s)"
    if "i_cataloged inst \<or> \<not> spec_drained s inst"
  proof (cases "i_deletion_ts inst = None")
    case True
    with delete_drained_refuses [OF assms that, of env]
    obtain msg where "fst (delete_drained env k s) = None"
      and "snd (delete_drained env k s) = log_warning msg s"
      by auto
    with True show ?thesis by (auto simp: log_warning_def)
  next
    case False
    then obtain t where "i_deletion_ts inst = Some t" by auto
    with delete_drained_refuses [OF assms that, of env] show ?thesis by simp
  qed
  then show ?thesis by blast
qed

theorem delete_drained_guard_witness:
  "get_Instance (ex_state ex_instance) ex_key = Some ex_instance
   \<and> rpcs (snd (delete_drained (ex_env ex_done ex_no_pages) ex_key (ex_state ex_instance))) \<noteq>
       rpcs (ex_state ex_instance)
   \<and> \<not> i_cataloged ex_instance \<and> spec_drained (ex_state ex_instance) ex_instance
   \<and> get_Instance (ex_state ex_cataloged) ex_key = Some ex_cataloged
   \<and> i_cataloged ex_cataloged \<and> i_deletion_ts ex_cataloged = None
   \<and> spec_drained (ex_state ex_cataloged) ex_cataloged
   \<and> fst (delete_drained (ex_env ex_done ex_no_pages) ex_key (ex_state ex_cataloged)) = None
   \<and> rpcs (snd (delete_drained (ex_env ex_done ex_no_pages) ex_key (ex_state ex_cataloged))) =
       rpcs (ex_state ex_cataloged)
   \<and> events (snd (delete_drained (ex_env ex_done ex_no_pages) ex_key (ex_state ex_cataloged))) =
       events (ex_state ex_cataloged)
   \<and> (\<exists>msg. snd (delete_drained (ex_env ex_done ex_no_pages) ex_key (ex_state ex_cataloged)) =
              log_warning msg (ex_state ex_cataloged))
   \<and> get_Instance (ex_state_undrained ex_instance) ex_key = Some ex_instance
   \<and> \<not> spec_drained (ex_state_undrained ex_instance) ex_instance
   \<and> rpcs (snd (delete_drained (ex_env ex_done ex_no_pages) ex_key (ex_state_undrained ex_instance))) =
       rpcs (ex_state_undrained ex_instance)
   \<and> events (snd (delete_drained (ex_env ex_done ex_no_pages) ex_key (ex_state_undrained ex_instance))) =
       events (ex_state_undrained ex_instance)"
proof -
  have plain: "get_Instance (ex_state ex_instance) ex_key = Some ex_instance"
    by (simp add: get_Instance_def ex_defs)
  have cataloged: "get_Instance (ex_state ex_cataloged) ex_key = Some ex_cataloged"
    by (simp add: get_Instance_def ex_cataloged_def ex_defs)
  have undrained: "get_Instance (ex_state_undrained ex_instance) ex_key = Some ex_instance"
    by (simp add: get_Instance_def ex_state_undrained_def ex_defs)
  have sent: "rpcs (snd (delete_drained (ex_env ex_done ex_no_pages) ex_key (ex_state ex_instance))) \<noteq>
       rpcs (ex_state ex_instance)"
    by (simp add: delete_drained_def priv_delete_def set_deletion_time_def delete_request_of_def
        truthy_def store_defs ex_done_def ex_defs Let_def)
  have is_cataloged: "i_cataloged ex_cataloged"
    by (simp add: ex_cataloged_def)
  have no_ts: "i_deletion_ts ex_cataloged = None"
    by (simp add: ex_cataloged_def ex_defs)
  have drained: "spec_drained (ex_state ex_cataloged) ex_cataloged"
    by (simp add: spec_drained_def ex_cataloged_def store_defs ex_defs)
  have not_drained: "\<not> spec_drained (ex_state_undrained ex_instance) ex_instance"
    by (simp add: spec_drained_def ex_state_undrained_def store_defs ex_defs)
  from delete_drained_guard [OF plain, of "ex_env ex_done ex_no_pages"] sent
  have first: "\<not> i_cataloged ex_instance \<and> spec_drained (ex_state ex_instance) ex_instance"
    by blast
  from delete_drained_guard [OF cataloged, of "ex_env ex_done ex_no_pages"] is_cataloged
  have second: "fst (delete_drained (ex_env ex_done ex_no_pages) ex_key (ex_state ex_cataloged)) = None
      \<and> rpcs (snd (delete_drained (ex_env ex_done ex_no_pages) ex_key (ex_state ex_cataloged))) =
          rpcs (ex_state ex_cataloged)
      \<and> events (snd (delete_drained (ex_env ex_done ex_no_pages) ex_key (ex_state ex_cataloged))) =
          events (ex_state ex_cataloged)
      \<and> (if i_deletion_ts ex_cataloged = None
          then \<exists>msg. snd (delete_drained (ex_env ex_done ex_no_pages) ex_key (ex_state ex_cataloged)) =
                     log_warning msg (ex_state ex_cataloged)
          else snd (delete_drained (ex_env ex_done ex_no_pages) ex_key (ex_state ex_cataloged)) =
                 ex_state ex_cataloged)"
    by blast
  from second no_ts
  have logged: "\<exists>msg. snd (delete_drained (ex_env ex_done ex_no_pages) ex_key (ex_state ex_cataloged)) =
                     log_warning msg (ex_state ex_cataloged)"
    by (simp only: if_True)
  from delete_drained_guard [OF undrained, of "ex_env ex_done ex_no_pages"] not_drained
  have third: "rpcs (snd (delete_drained (ex_env ex_done ex_no_pages) ex_key
                            (ex_state_undrained ex_instance))) = rpcs (ex_state_undrained ex_instance)
      \<and> events (snd (delete_drained (ex_env ex_done ex_no_pages) ex_key
                            (ex_state_undrained ex_instance))) = events (ex_state_undrained ex_instance)"
    by blast
  from plain sent first cataloged is_cataloged no_ts drained second logged undrained not_drained third
  show ?thesis by blast
qed

text \<open>
  The claim as it is written has \<open>delete_drained\<close> log for every cataloged instance. The
  instance \<open>ex_cataloged_deleted\<close> is cataloged, sits in a drained manager and has its
  deletion time set: \<open>delete_drained\<close> returns the state as it was, the log with it.
\<close>

theorem delete_drained_counterexample:
  "get_Instance (ex_state ex_cataloged_deleted) ex_key = Some ex_cataloged_deleted
   \<and> i_cataloged ex_cataloged_deleted
   \<and> spec_drained (ex_state ex_cataloged_deleted) ex_cataloged_deleted
   \<and> delete_drained (ex_env ex_done ex_no_pages) ex_key (ex_state ex_cataloged_deleted) =
       (None, ex_state ex_cataloged_deleted)
   \<and> logs (snd (delete_drained (ex_env ex_done ex_no_pages) ex_key (ex_state ex_cataloged_deleted))) = []"
  by (simp add: delete_drained_def spec_drained_def ex_cataloged_deleted_def store_defs ex_defs)

end
